theory Spec2Isabelle
  imports Main
begin

section \<open>Clip Connect proxy: the session registry and the clipboard relay\<close>

text \<open>
  \<^verbatim>\<open>src/index.js\<close> holds two variants of one Express service over a Supabase
  store. Variant A (lines 1-154) issues an AES key with every session and finds a free
  code by check-then-insert; variant B (lines 155-289) keeps a device roster and lets a
  uniqueness constraint of the store reject a taken code. Every handler is embedded
  as a function from the fields it reads from the request, the answers of its
  environment (the random generators and the failures of the store) and the store before
  the request, to the HTTP response and the store after it.
\<close>

subsection \<open>JavaScript values\<close>

text \<open>
  A field of a JSON request body is any JSON value, or \<^verbatim>\<open>undefined\<close> when it is
  missing. A string is the list of its code units, so \<open>length\<close> is the
  \<^verbatim>\<open>.length\<close> of the source. Of a number the handlers only ever observe whether it
  is zero.
\<close>

datatype jsval =
    JUndefined
  | JNull
  | JBool bool
  | JNum int
  | JStr string
  | JArr "jsval list"
  | JObj "(string \<times> jsval) list"

text \<open>\<^verbatim>\<open>!v\<close> is \<open>\<not> truthy v\<close>: the falsy values are undefined, null, false, 0 and the empty string.\<close>

fun truthy :: "jsval \<Rightarrow> bool" where
  "truthy JUndefined = False"
| "truthy JNull = False"
| "truthy (JBool b) = b"
| "truthy (JNum n) = (n \<noteq> 0)"
| "truthy (JStr s) = (s \<noteq> [])"
| "truthy (JArr _) = True"
| "truthy (JObj _) = True"

fun is_string :: "jsval \<Rightarrow> bool" where
  "is_string (JStr _) = True"
| "is_string _ = False"

text \<open>
  \<^verbatim>\<open>String.prototype.toUpperCase\<close> on the ASCII range, which holds every character
  that \<^verbatim>\<open>nanoid\<close> produces: a lower-case letter moves down by 32, anything else stays.
\<close>

definition upper_char :: "char \<Rightarrow> char" where
  "upper_char c =
     (let n = (of_char c :: nat) in if 97 \<le> n \<and> n \<le> 122 then char_of (n - 32) else c)"

definition toUpperCase :: "string \<Rightarrow> string" where
  "toUpperCase s = map upper_char s"

subsection \<open>The HTTP response\<close>

text \<open>
  \<open>Json st b\<close> is \<^verbatim>\<open>res.status(st).json(b)\<close> (\<^verbatim>\<open>res.json(b)\<close> is status 200).
  \<open>Rejected\<close> is a handler whose promise rejects before any response is sent.
\<close>

datatype response = Json nat jsval | Rejected

definition err_body :: "string \<Rightarrow> jsval" where
  "err_body msg = JObj [(''error'', JStr msg)]"

definition success_body :: jsval where
  "success_body = JObj [(''success'', JBool True)]"

fun status :: "response \<Rightarrow> nat option" where
  "status (Json st _) = Some st"
| "status Rejected = None"

subsection \<open>The storage collaborator\<close>

text \<open>
  The rows of the two tables. Variant A never writes \<open>device_ids\<close> or \<open>from_device\<close>
  and variant B never writes \<open>aes_key\<close>; a column that a variant does not have is
  null (\<open>None\<close>, \<open>JNull\<close>). The columns of an item hold what the handler sent.
\<close>

record session_row =
  s_id :: string
  s_code :: string
  s_aes_key :: "string option"
  s_device_ids :: "string list option"

record item_row =
  i_session_id :: jsval
  i_content :: jsval
  i_from_device :: jsval
  i_created_at :: nat

text \<open>The calls that the store receives, in order: what a handler did to the store.\<close>

datatype call =
    FindSessionByCode string
  | InsertSession string "string option"
  | UpdateDeviceIds string "string list"
  | DeleteSession jsval
  | InsertItem jsval jsval jsval
  | QueryLatest jsval
  | DeleteItems jsval

record db =
  sessions :: "session_row list"
  clipboard_items :: "item_row list"
  calls :: "call list"

text \<open>The \<^verbatim>\<open>error\<close> of a Supabase answer, with its \<^verbatim>\<open>code\<close>.\<close>

datatype pgerror = PgError string

fun pg_code :: "pgerror \<Rightarrow> string" where
  "pg_code (PgError c) = c"

text \<open>An answer \<^verbatim>\<open>{ data, error }\<close> of the client.\<close>

type_synonym 'a answer = "'a option \<times> pgerror option"

definition record_call :: "call \<Rightarrow> db \<Rightarrow> db" where
  "record_call c d = d\<lparr>calls := calls d @ [c]\<rparr>"

text \<open>
  Modelled from the spec: the storage collaborator (the Supabase client and the database
  behind it; not in src/), by its interface in section 6:
  \<^verbatim>\<open>find(table, filter) -> record?\<close>, \<^verbatim>\<open>insert(table, record) -> record|error\<close>,
  \<^verbatim>\<open>update(table, filter, patch) -> error?\<close>, \<^verbatim>\<open>delete(table, filter) -> error?\<close>,
  \<^verbatim>\<open>queryLatest(table, filter, orderKey) -> record?\<close>.
  Every call takes a \<open>fault\<close>, the environment's choice whether this call fails: a
  call that fails answers with the error and leaves the tables as they were. A lookup
  that matches no row answers neither data nor error, as \<^verbatim>\<open>record?\<close> has it; a client
  that reports such a miss as an error is the same lookup with a fault. The
  identifier of a new session (\<open>new_id\<close>) and the timestamp of a new item (\<open>now\<close>)
  are the store's own, so the environment supplies them too.
\<close>

definition find_session :: "pgerror option \<Rightarrow> string \<Rightarrow> db \<Rightarrow> session_row answer \<times> db" where
  "find_session fault c d =
     (case fault of
        Some e \<Rightarrow> ((None, Some e), record_call (FindSessionByCode c) d)
      | None \<Rightarrow> ((find (\<lambda>s. s_code s = c) (sessions d), None), record_call (FindSessionByCode c) d))"

definition insert_session ::
  "pgerror option \<Rightarrow> string \<Rightarrow> string \<Rightarrow> string option \<Rightarrow> db \<Rightarrow> session_row answer \<times> db" where
  "insert_session fault new_id c k d =
     (case fault of
        Some e \<Rightarrow> ((None, Some e), record_call (InsertSession c k) d)
      | None \<Rightarrow>
          (let row = \<lparr>s_id = new_id, s_code = c, s_aes_key = k, s_device_ids = None\<rparr>
           in ((Some row, None),
               record_call (InsertSession c k) (d\<lparr>sessions := sessions d @ [row]\<rparr>))))"

text \<open>
  The insert of variant B: the table has a uniqueness constraint on \<open>code\<close>, and an
  insert that would break it fails with PostgreSQL's \<^verbatim>\<open>unique_violation\<close>, 23505.
\<close>

definition insert_session_unique ::
  "pgerror option \<Rightarrow> string \<Rightarrow> string \<Rightarrow> db \<Rightarrow> session_row answer \<times> db" where
  "insert_session_unique fault new_id c d =
     (if fault = None \<and> c \<in> s_code ` set (sessions d)
      then ((None, Some (PgError ''23505'')), record_call (InsertSession c None) d)
      else insert_session fault new_id c None d)"

definition update_device_ids ::
  "pgerror option \<Rightarrow> string \<Rightarrow> string list \<Rightarrow> db \<Rightarrow> pgerror option \<times> db" where
  "update_device_ids fault i ds d =
     (case fault of
        Some e \<Rightarrow> (Some e, record_call (UpdateDeviceIds i ds) d)
      | None \<Rightarrow>
          (None, record_call (UpdateDeviceIds i ds)
             (d\<lparr>sessions :=
                  map (\<lambda>s. if s_id s = i then s\<lparr>s_device_ids := Some ds\<rparr> else s) (sessions d)\<rparr>)))"

definition delete_session :: "pgerror option \<Rightarrow> jsval \<Rightarrow> db \<Rightarrow> pgerror option \<times> db" where
  "delete_session fault i d =
     (case fault of
        Some e \<Rightarrow> (Some e, record_call (DeleteSession i) d)
      | None \<Rightarrow>
          (None, record_call (DeleteSession i)
             (d\<lparr>sessions := filter (\<lambda>s. JStr (s_id s) \<noteq> i) (sessions d)\<rparr>)))"

definition insert_item ::
  "pgerror option \<Rightarrow> nat \<Rightarrow> jsval \<Rightarrow> jsval \<Rightarrow> jsval \<Rightarrow> db \<Rightarrow> pgerror option \<times> db" where
  "insert_item fault now sid c fd d =
     (case fault of
        Some e \<Rightarrow> (Some e, record_call (InsertItem sid c fd) d)
      | None \<Rightarrow>
          (None, record_call (InsertItem sid c fd)
             (d\<lparr>clipboard_items := clipboard_items d @
                  [\<lparr>i_session_id = sid, i_content = c, i_from_device = fd, i_created_at = now\<rparr>]\<rparr>)))"

definition delete_items :: "pgerror option \<Rightarrow> jsval \<Rightarrow> db \<Rightarrow> pgerror option \<times> db" where
  "delete_items fault sid d =
     (case fault of
        Some e \<Rightarrow> (Some e, record_call (DeleteItems sid) d)
      | None \<Rightarrow>
          (None, record_call (DeleteItems sid)
             (d\<lparr>clipboard_items := filter (\<lambda>r. i_session_id r \<noteq> sid) (clipboard_items d)\<rparr>)))"

text \<open>
  \<^verbatim>\<open>.eq('session_id', sid).order('created_at', { ascending: false }).limit(1).single()\<close>:
  the items of the session, newest first, and the first of them.
\<close>

definition items_of :: "jsval \<Rightarrow> db \<Rightarrow> item_row list" where
  "items_of sid d = filter (\<lambda>r. i_session_id r = sid) (clipboard_items d)"

definition order_desc :: "item_row list \<Rightarrow> item_row list" where
  "order_desc rs = rev (sort_key i_created_at rs)"

definition queryLatest :: "pgerror option \<Rightarrow> jsval \<Rightarrow> db \<Rightarrow> item_row answer \<times> db" where
  "queryLatest fault sid d =
     (case fault of
        Some e \<Rightarrow> ((None, Some e), record_call (QueryLatest sid) d)
      | None \<Rightarrow>
          ((case order_desc (items_of sid d) of [] \<Rightarrow> None | r # _ \<Rightarrow> Some r, None),
           record_call (QueryLatest sid) d))"

subsection \<open>Variant A: key-issuing sessions, check-then-insert\<close>

text \<open>
  \<^verbatim>\<open>generateUniqueSessionCode\<close> (lines 29-52). \<open>nanoid k\<close> is what the \<open>k\<close>-th call
  \<^verbatim>\<open>nanoid(6)\<close> of the request returns and \<open>fault k\<close> the failure of its
  \<open>k\<close>-th lookup. The loop state is \<open>(code, isUnique, tries)\<close>.
\<close>

function generateUniqueSessionCode_loop ::
  "(nat \<Rightarrow> string) \<Rightarrow> (nat \<Rightarrow> pgerror option) \<Rightarrow> string \<Rightarrow> bool \<Rightarrow> nat \<Rightarrow> db
     \<Rightarrow> (string \<times> bool \<times> nat) \<times> db" where
  "generateUniqueSessionCode_loop nanoid fault code isUnique tries d =
     (if \<not> isUnique \<and> tries < 10 then
        (let code' = toUpperCase (nanoid tries);
             ((data, error), d') = find_session (fault tries) code' d
         in generateUniqueSessionCode_loop nanoid fault code'
              (if data = None \<and> error = None then True else isUnique) (tries + 1) d')
      else ((code, isUnique, tries), d))"
  by pat_completeness auto
termination
  by (relation "measure (\<lambda>(nanoid, fault, code, isUnique, tries, d). 10 - tries)") auto

declare generateUniqueSessionCode_loop.simps [simp del]

datatype js_error = Error string

definition generateUniqueSessionCode ::
  "(nat \<Rightarrow> string) \<Rightarrow> (nat \<Rightarrow> pgerror option) \<Rightarrow> db \<Rightarrow> (js_error + string) \<times> db" where
  "generateUniqueSessionCode nanoid fault d =
     (let ((code, isUnique, tries), d') = generateUniqueSessionCode_loop nanoid fault [] False 0 d
      in if \<not> isUnique then (Inl (Error ''Failed to generate unique code''), d')
         else (Inr code, d'))"

text \<open>
  \<^verbatim>\<open>POST /create-session\<close> (lines 54-72). \<open>key\<close> is what \<^verbatim>\<open>generateKey()\<close>
  returns. Whatever is thrown inside the \<^verbatim>\<open>try\<close> (the exhaustion error, the insert's
  error, reading \<^verbatim>\<open>data.id\<close> of null) ends in the one 500 answer of the \<^verbatim>\<open>catch\<close>.
\<close>

definition create_session_A ::
  "(nat \<Rightarrow> string) \<Rightarrow> string \<Rightarrow> (nat \<Rightarrow> pgerror option) \<Rightarrow> pgerror option \<Rightarrow> string \<Rightarrow> db
     \<Rightarrow> response \<times> db" where
  "create_session_A nanoid key fault ins_fault new_id d =
     (case generateUniqueSessionCode nanoid fault d of
        (Inl err, d1) \<Rightarrow> (Json 500 (err_body ''Failed to create session''), d1)
      | (Inr code, d1) \<Rightarrow>
          (let ((data, error), d2) = insert_session ins_fault new_id code (Some key) d1
           in case error of
                Some e \<Rightarrow> (Json 500 (err_body ''Failed to create session''), d2)
              | None \<Rightarrow>
                  (case data of
                     None \<Rightarrow> (Json 500 (err_body ''Failed to create session''), d2)
                   | Some row \<Rightarrow>
                       (Json 200 (JObj [(''sessionId'', JStr (s_id row)), (''code'', JStr code),
                                        (''aesKey'', JStr key)]), d2))))"

text \<open>\<^verbatim>\<open>POST /join-session\<close> (lines 74-91).\<close>

definition opt_str :: "string option \<Rightarrow> jsval" where
  "opt_str k = (case k of None \<Rightarrow> JNull | Some s \<Rightarrow> JStr s)"

definition join_session_A :: "jsval \<Rightarrow> pgerror option \<Rightarrow> db \<Rightarrow> response \<times> db" where
  "join_session_A code fault d =
     (case code of
        JStr c \<Rightarrow>
          (if length c \<noteq> 6 then (Json 400 (err_body ''Invalid code''), d)
           else
             (let ((data, error), d1) = find_session fault c d
              in case data of
                   Some row \<Rightarrow>
                     (if error \<noteq> None then (Json 404 (err_body ''Session not found''), d1)
                      else (Json 200 (JObj [(''sessionId'', JStr (s_id row)),
                                            (''aesKey'', opt_str (s_aes_key row))]), d1))
                 | None \<Rightarrow> (Json 404 (err_body ''Session not found''), d1)))
      | _ \<Rightarrow> (Json 400 (err_body ''Invalid code''), d))"

text \<open>\<^verbatim>\<open>POST /sync\<close> (lines 93-109).\<close>

definition sync_A :: "jsval \<Rightarrow> jsval \<Rightarrow> pgerror option \<Rightarrow> nat \<Rightarrow> db \<Rightarrow> response \<times> db" where
  "sync_A sessionId clip fault now d =
     (if \<not> truthy sessionId \<or> \<not> truthy clip
      then (Json 400 (err_body ''Missing sessionId or clip''), d)
      else
        (let (error, d1) = insert_item fault now sessionId clip JNull d
         in case error of
              Some e \<Rightarrow> (Json 500 (err_body ''Failed to sync''), d1)
            | None \<Rightarrow> (Json 200 success_body, d1)))"

text \<open>
  \<^verbatim>\<open>GET /latest/:sessionId\<close> (lines 111-127). A route parameter is always a string.
\<close>

definition latest_A :: "string \<Rightarrow> pgerror option \<Rightarrow> db \<Rightarrow> response \<times> db" where
  "latest_A sessionId fault d =
     (let ((data, error), d1) = queryLatest fault (JStr sessionId) d
      in case data of
           Some row \<Rightarrow>
             (if error \<noteq> None then (Json 404 (err_body ''No clipboard found''), d1)
              else (Json 200 (JObj [(''clip'', i_content row)]), d1))
         | None \<Rightarrow> (Json 404 (err_body ''No clipboard found''), d1))"

text \<open>
  \<^verbatim>\<open>POST /end-session\<close> (lines 129-144). The answer of the first delete is not read.
\<close>

definition end_session_A :: "jsval \<Rightarrow> pgerror option \<Rightarrow> pgerror option \<Rightarrow> db \<Rightarrow> response \<times> db" where
  "end_session_A sessionId items_fault session_fault d =
     (if \<not> truthy sessionId then (Json 400 (err_body ''Missing sessionId''), d)
      else
        (let (_, d1) = delete_items items_fault sessionId d;
             (error, d2) = delete_session session_fault sessionId d1
         in case error of
              Some e \<Rightarrow> (Json 500 (err_body ''Failed to end session''), d2)
            | None \<Rightarrow> (Json 200 success_body, d2)))"

subsection \<open>Variant B: device rosters, insert-and-detect-conflict\<close>

text \<open>
  \<^verbatim>\<open>POST /create-session\<close> (lines 188-207). \<open>nanoid k\<close> and \<open>fault k\<close> are the
  candidate and the failure of the \<open>k\<close>-th attempt. There is no \<^verbatim>\<open>try\<close> here: reading
  \<^verbatim>\<open>data.id\<close> of an answer with neither data nor error rejects the handler's promise.
\<close>

function create_session_B_loop ::
  "(nat \<Rightarrow> string) \<Rightarrow> (nat \<Rightarrow> pgerror option) \<Rightarrow> string \<Rightarrow> nat \<Rightarrow> db \<Rightarrow> response \<times> db" where
  "create_session_B_loop nanoid fault new_id tries d =
     (if tries < 5 then
        (let code = toUpperCase (nanoid tries);
             ((data, error), d') = insert_session_unique (fault tries) new_id code d
         in case error of
              None \<Rightarrow>
                (case data of
                   Some row \<Rightarrow>
                     (Json 200 (JObj [(''sessionId'', JStr (s_id row)), (''code'', JStr code)]), d')
                 | None \<Rightarrow> (Rejected, d'))
            | Some e \<Rightarrow>
                (if pg_code e \<noteq> ''23505''
                 then (Json 500 (err_body ''Failed to create session''), d')
                 else create_session_B_loop nanoid fault new_id (tries + 1) d'))
      else (Json 500 (err_body ''Code generation failed''), d))"
  by pat_completeness auto
termination
  by (relation "measure (\<lambda>(nanoid, fault, new_id, tries, d). 5 - tries)") auto

declare create_session_B_loop.simps [simp del]

definition create_session_B ::
  "(nat \<Rightarrow> string) \<Rightarrow> (nat \<Rightarrow> pgerror option) \<Rightarrow> string \<Rightarrow> db \<Rightarrow> response \<times> db" where
  "create_session_B nanoid fault new_id d = create_session_B_loop nanoid fault new_id 0 d"

text \<open>
  \<^verbatim>\<open>POST /join-session\<close> (lines 210-235). \<^verbatim>\<open>data.device_ids || []\<close> reads a null
  roster as the empty one; the answer of the update is not read.
\<close>

definition join_session_B ::
  "jsval \<Rightarrow> jsval \<Rightarrow> pgerror option \<Rightarrow> pgerror option \<Rightarrow> db \<Rightarrow> response \<times> db" where
  "join_session_B code deviceId fault upd_fault d =
     (case code of
        JStr c \<Rightarrow>
          (if length c \<noteq> 6 then (Json 400 (err_body ''Invalid code''), d)
           else
             (let ((data, error), d1) = find_session fault c d
              in case data of
                   Some row \<Rightarrow>
                     (if error \<noteq> None then (Json 404 (err_body ''Session not found''), d1)
                      else
                        (let d2 =
                           (case deviceId of
                              JStr dev \<Rightarrow>
                                (if dev \<noteq> [] then
                                   (let current = (case s_device_ids row of None \<Rightarrow> [] | Some ds \<Rightarrow> ds)
                                    in if dev \<notin> set current
                                       then snd (update_device_ids upd_fault (s_id row)
                                                   (current @ [dev]) d1)
                                       else d1)
                                 else d1)
                            | _ \<Rightarrow> d1)
                         in (Json 200 (JObj [(''sessionId'', JStr (s_id row))]), d2)))
                 | None \<Rightarrow> (Json 404 (err_body ''Session not found''), d1)))
      | _ \<Rightarrow> (Json 400 (err_body ''Invalid code''), d))"

text \<open>\<^verbatim>\<open>POST /sync\<close> (lines 238-252).\<close>

definition sync_B :: "jsval \<Rightarrow> jsval \<Rightarrow> jsval \<Rightarrow> pgerror option \<Rightarrow> nat \<Rightarrow> db \<Rightarrow> response \<times> db" where
  "sync_B sessionId clip fromDevice fault now d =
     (if \<not> is_string sessionId \<or> \<not> is_string clip
      then (Json 400 (err_body ''Invalid sessionId or clip''), d)
      else
        (let (error, d1) =
               insert_item fault now sessionId clip (if truthy fromDevice then fromDevice else JNull) d
         in case error of
              Some e \<Rightarrow> (Json 500 (err_body ''Failed to sync''), d1)
            | None \<Rightarrow> (Json 200 success_body, d1)))"

text \<open>
  \<^verbatim>\<open>GET /latest\<close> (lines 255-276). A query parameter may be missing or an array. The
  timestamp is answered as the store keeps it.
\<close>

definition latest_B :: "jsval \<Rightarrow> pgerror option \<Rightarrow> db \<Rightarrow> response \<times> db" where
  "latest_B sessionId fault d =
     (if \<not> is_string sessionId then (Json 400 (err_body ''Missing sessionId''), d)
      else
        (let ((data, error), d1) = queryLatest fault sessionId d
         in case data of
              Some row \<Rightarrow>
                (if error \<noteq> None then (Json 404 (err_body ''No data found''), d1)
                 else (Json 200 (JObj [(''content'', i_content row),
                                       (''fromDevice'', i_from_device row),
                                       (''timestamp'', JNum (int (i_created_at row)))]), d1))
            | None \<Rightarrow> (Json 404 (err_body ''No data found''), d1)))"

section \<open>The vocabulary of the properties\<close>

text \<open>The condition of the check at lines 76 and 212: a string of exactly 6 characters.\<close>

fun six_char_string :: "jsval \<Rightarrow> bool" where
  "six_char_string (JStr c) = (length c = 6)"
| "six_char_string _ = False"

fun nonempty_string :: "jsval \<Rightarrow> bool" where
  "nonempty_string (JStr s) = (s \<noteq> [])"
| "nonempty_string _ = False"

text \<open>The codes of the live sessions, and the roster of a session as line 225 reads it.\<close>

definition live_codes :: "db \<Rightarrow> string set" where
  "live_codes d = s_code ` set (sessions d)"

definition roster :: "session_row \<Rightarrow> string list" where
  "roster s = (case s_device_ids s of None \<Rightarrow> [] | Some ds \<Rightarrow> ds)"

text \<open>
  The character classes of a code. The \<^verbatim>\<open>nanoid\<close> package is not in src/: with no
  alphabet given, \<^verbatim>\<open>nanoid(6)\<close> returns six characters of its URL alphabet, the letters
  of both cases, the digits, \<^verbatim>\<open>_\<close> and \<^verbatim>\<open>-\<close> (\<open>nanoid6\<close>). \<open>upper_alnum\<close> is
  an upper-case letter or a digit; \<open>code_char\<close> is what upper-casing leaves of the
  URL alphabet.
\<close>

definition digit_char :: "char \<Rightarrow> bool" where
  "digit_char c = (let n = (of_char c :: nat) in 48 \<le> n \<and> n \<le> 57)"

definition upper_letter :: "char \<Rightarrow> bool" where
  "upper_letter c = (let n = (of_char c :: nat) in 65 \<le> n \<and> n \<le> 90)"

definition lower_letter :: "char \<Rightarrow> bool" where
  "lower_letter c = (let n = (of_char c :: nat) in 97 \<le> n \<and> n \<le> 122)"

definition upper_alnum :: "char \<Rightarrow> bool" where
  "upper_alnum c = (digit_char c \<or> upper_letter c)"

definition nanoid_char :: "char \<Rightarrow> bool" where
  "nanoid_char c = (digit_char c \<or> upper_letter c \<or> lower_letter c \<or> c = CHR ''_'' \<or> c = CHR ''-'')"

definition nanoid6 :: "string \<Rightarrow> bool" where
  "nanoid6 s = (length s = 6 \<and> list_all nanoid_char s)"

definition code_char :: "char \<Rightarrow> bool" where
  "code_char c = (upper_alnum c \<or> c = CHR ''_'' \<or> c = CHR ''-'')"

text \<open>A store for the examples: one session with two items, and an item of another session.\<close>

definition example_db :: db where
  "example_db =
     \<lparr>sessions = [\<lparr>s_id = ''s1'', s_code = ''AB12CD'', s_aes_key = Some ''k1'',
                   s_device_ids = Some [''phone'']\<rparr>],
      clipboard_items =
        [\<lparr>i_session_id = JStr ''s1'', i_content = JStr ''hello'', i_from_device = JNull,
          i_created_at = 1\<rparr>,
         \<lparr>i_session_id = JStr ''s1'', i_content = JStr ''world'', i_from_device = JStr ''phone'',
          i_created_at = 2\<rparr>,
         \<lparr>i_session_id = JStr ''s2'', i_content = JStr ''other'', i_from_device = JNull,
          i_created_at = 3\<rparr>],
      calls = []\<rparr>"

section \<open>Properties\<close>

subsection \<open>Joining a session\<close>

text \<open>
  C6: whenever \<open>code\<close> is not a string of exactly 6 characters, JoinSession answers
  400 \<^verbatim>\<open>Invalid code\<close> in both variants, and the store is returned as it was: no row
  changed and no call was made to it.
\<close>

theorem join_session_invalid_code:
  assumes "\<not> six_char_string code"
  shows "join_session_A code fault d = (Json 400 (err_body ''Invalid code''), d)
       \<and> join_session_B code deviceId fault upd_fault d = (Json 400 (err_body ''Invalid code''), d)
       \<and> calls (snd (join_session_A code fault d)) = calls d
       \<and> calls (snd (join_session_B code deviceId fault upd_fault d)) = calls d"
  using assms by (cases code) (simp_all add: join_session_A_def join_session_B_def)

theorem join_session_invalid_code_witness:
  "\<not> six_char_string (JStr ''AB12C'')
   \<and> join_session_A (JStr ''AB12C'') None example_db = (Json 400 (err_body ''Invalid code''), example_db)
   \<and> join_session_B (JStr ''AB12C'') (JStr ''tablet'') None None example_db
       = (Json 400 (err_body ''Invalid code''), example_db)
   \<and> calls (snd (join_session_A (JStr ''AB12C'') None example_db)) = []"
  using join_session_invalid_code [of "JStr ''AB12C''" None example_db "JStr ''tablet''" None]
  by (simp add: example_db_def)

lemma find_session_miss:
  "c \<notin> live_codes d \<Longrightarrow> fst (fst (find_session fault c d)) = None"
  by (auto simp: find_session_def find_None_iff live_codes_def split: option.splits)

lemma join_session_miss:
  assumes "length c = 6" and "c \<notin> live_codes d"
  shows "fst (join_session_A (JStr c) fault d) = Json 404 (err_body ''Session not found'')
       \<and> fst (join_session_B (JStr c) deviceId fault upd_fault d) = Json 404 (err_body ''Session not found'')"
  using assms find_session_miss [of c d fault]
  by (auto simp: join_session_A_def join_session_B_def split: prod.splits option.splits)

lemma live_codes_after_end_session:
  assumes "truthy (JStr i)" and "list_all (\<lambda>s. s_code s = c \<longrightarrow> s_id s = i) (sessions d)"
  shows "c \<notin> live_codes (snd (end_session_A (JStr i) f None d))"
  using assms
  by (cases f)
     (auto simp: end_session_A_def delete_items_def delete_session_def record_call_def
        live_codes_def list_all_iff)

text \<open>
  C7: a 6-character code that no live session carries (it was never issued, or its session
  is gone) is answered 404 \<^verbatim>\<open>Session not found\<close> in both variants, whether the lookup
  fails or finds nothing; and once EndSession has deleted the session that carried a code,
  joining by that code is answered 404.
\<close>

theorem join_session_unknown_code:
  "(length c = 6 \<and> c \<notin> live_codes d \<longrightarrow>
      fst (join_session_A (JStr c) fault d) = Json 404 (err_body ''Session not found'')
    \<and> fst (join_session_B (JStr c) deviceId fault upd_fault d) = Json 404 (err_body ''Session not found''))
 \<and> (length c = 6 \<and> i \<noteq> [] \<and> list_all (\<lambda>s. s_code s = c \<longrightarrow> s_id s = i) (sessions d) \<longrightarrow>
      fst (join_session_A (JStr c) fault (snd (end_session_A (JStr i) f None d)))
        = Json 404 (err_body ''Session not found''))"
  using join_session_miss [of c d fault deviceId upd_fault]
    join_session_miss [of c "snd (end_session_A (JStr i) f None d)" fault]
    live_codes_after_end_session [of i c d f]
  by simp

theorem join_session_unknown_code_witness:
  "length ''ZZ99ZZ'' = 6 \<and> ''ZZ99ZZ'' \<notin> live_codes example_db
   \<and> fst (join_session_A (JStr ''ZZ99ZZ'') None example_db) = Json 404 (err_body ''Session not found'')
   \<and> fst (join_session_B (JStr ''ZZ99ZZ'') (JStr ''tablet'') (Some (PgError ''08006'')) None example_db)
       = Json 404 (err_body ''Session not found'')
   \<and> fst (join_session_A (JStr ''AB12CD'') None example_db)
       = Json 200 (JObj [(''sessionId'', JStr ''s1''), (''aesKey'', JStr ''k1'')])
   \<and> list_all (\<lambda>s. s_code s = ''AB12CD'' \<longrightarrow> s_id s = ''s1'') (sessions example_db)
   \<and> fst (join_session_A (JStr ''AB12CD'') None (snd (end_session_A (JStr ''s1'') None None example_db)))
       = Json 404 (err_body ''Session not found'')"
  using join_session_unknown_code [of "''ZZ99ZZ''" example_db None "JStr ''tablet''" None "''s9''" None]
    join_session_unknown_code [of "''ZZ99ZZ''" example_db "Some (PgError ''08006'')" "JStr ''tablet''" None
      "''s9''" None]
    join_session_unknown_code [of "''AB12CD''" example_db None JNull None "''s1''" None]
  by (simp add: example_db_def live_codes_def join_session_A_def find_session_def record_call_def
        opt_str_def)

subsection \<open>The device roster\<close>

lemma find_Some_mem: "find P xs = Some r \<Longrightarrow> r \<in> set xs \<and> P r"
  by (induction xs) (auto split: if_splits)

text \<open>
  C10: when the lookup finds the session, variant B answers 200 with the session's id
  whatever the update of the roster answers: the answer is the same for every
  \<open>upd_fault\<close>, so a failed update is never seen by the caller.
\<close>

theorem join_session_B_ignores_update_error:
  assumes "length c = 6" and "find (\<lambda>s. s_code s = c) (sessions d) = Some row"
  shows "fst (join_session_B (JStr c) deviceId None upd_fault d)
         = Json 200 (JObj [(''sessionId'', JStr (s_id row))])"
  using assms
  by (auto simp: join_session_B_def find_session_def Let_def split: prod.splits jsval.splits)

theorem join_session_B_ignores_update_error_witness:
  "length ''AB12CD'' = 6
   \<and> find (\<lambda>s. s_code s = ''AB12CD'') (sessions example_db)
       = Some \<lparr>s_id = ''s1'', s_code = ''AB12CD'', s_aes_key = Some ''k1'', s_device_ids = Some [''phone'']\<rparr>
   \<and> join_session_B (JStr ''AB12CD'') (JStr ''tablet'') None (Some (PgError ''57014'')) example_db
       = (Json 200 (JObj [(''sessionId'', JStr ''s1'')]),
          example_db\<lparr>calls := [FindSessionByCode ''AB12CD'', UpdateDeviceIds ''s1'' [''phone'', ''tablet'']]\<rparr>)"
  using join_session_B_ignores_update_error [of "''AB12CD''" example_db
      "\<lparr>s_id = ''s1'', s_code = ''AB12CD'', s_aes_key = Some ''k1'', s_device_ids = Some [''phone'']\<rparr>"
      "JStr ''tablet''" "Some (PgError ''57014'')"]
  by (simp add: example_db_def join_session_B_def find_session_def update_device_ids_def record_call_def)

lemma join_session_B_sessions:
  "sessions (snd (join_session_B code deviceId fault upd_fault d)) = sessions d
   \<or> (\<exists>row dev. row \<in> set (sessions d) \<and> deviceId = JStr dev \<and> dev \<notin> set (roster row)
        \<and> sessions (snd (join_session_B code deviceId fault upd_fault d))
          = map (\<lambda>s. if s_id s = s_id row then s\<lparr>s_device_ids := Some (roster row @ [dev])\<rparr> else s)
              (sessions d))"
proof (cases code)
  case (JStr c)
  show ?thesis
  proof (cases "fault = None \<and> length c = 6")
    case False
    then show ?thesis using JStr
      by (auto simp: join_session_B_def find_session_def record_call_def split: option.splits)
  next
    case True
    show ?thesis
    proof (cases "find (\<lambda>s. s_code s = c) (sessions d)")
      case None
      then show ?thesis using JStr True
        by (simp add: join_session_B_def find_session_def record_call_def)
    next
      case (Some row)
      then have mem: "row \<in> set (sessions d)" using find_Some_mem by fastforce
      show ?thesis
      proof (cases "\<exists>dev. deviceId = JStr dev \<and> dev \<noteq> [] \<and> dev \<notin> set (roster row) \<and> upd_fault = None")
        case False
        then show ?thesis using JStr True Some
          by (cases deviceId; cases upd_fault)
             (auto simp: join_session_B_def find_session_def record_call_def roster_def
                update_device_ids_def Let_def)
      next
        case appended: True
        then obtain dev where dev: "deviceId = JStr dev" "dev \<noteq> []" "dev \<notin> set (roster row)"
          "upd_fault = None" by blast
        have "sessions (snd (join_session_B code deviceId fault upd_fault d))
          = map (\<lambda>s. if s_id s = s_id row then s\<lparr>s_device_ids := Some (roster row @ [dev])\<rparr> else s)
              (sessions d)"
          using JStr True Some dev
          by (simp add: join_session_B_def find_session_def record_call_def roster_def
                update_device_ids_def Let_def)
        then show ?thesis using mem dev(1,3) by blast
      qed
    qed
  qed
qed (simp_all add: join_session_B_def)

text \<open>
  C9: JoinSession of variant B either leaves the sessions as they are or writes, to the
  session it found, that session's roster with a \<open>deviceId\<close> appended that was not in
  it; so if no roster of the store has a duplicate before a JoinSession, none has one
  after it.
\<close>

theorem join_session_B_roster_distinct:
  assumes "list_all (\<lambda>s. distinct (roster s)) (sessions d)"
  shows "list_all (\<lambda>s. distinct (roster s))
           (sessions (snd (join_session_B code deviceId fault upd_fault d)))
       \<and> (sessions (snd (join_session_B code deviceId fault upd_fault d)) = sessions d
          \<or> (\<exists>row dev. row \<in> set (sessions d) \<and> deviceId = JStr dev \<and> dev \<notin> set (roster row)
               \<and> sessions (snd (join_session_B code deviceId fault upd_fault d))
                 = map (\<lambda>s. if s_id s = s_id row
                             then s\<lparr>s_device_ids := Some (roster row @ [dev])\<rparr> else s)
                     (sessions d)))"
proof -
  let ?d' = "snd (join_session_B code deviceId fault upd_fault d)"
  note eff = join_session_B_sessions [of code deviceId fault upd_fault d]
  then consider "sessions ?d' = sessions d"
    | row dev where "row \<in> set (sessions d)" "dev \<notin> set (roster row)"
        "sessions ?d' = map (\<lambda>s. if s_id s = s_id row
                                  then s\<lparr>s_device_ids := Some (roster row @ [dev])\<rparr> else s)
              (sessions d)"
    by blast
  then have "list_all (\<lambda>s. distinct (roster s)) (sessions ?d')"
  proof cases
    case 1
    then show ?thesis using assms by simp
  next
    case 2
    have "distinct (roster row @ [dev])" using 2(1,2) assms by (simp add: list_all_iff)
    then show ?thesis using assms unfolding 2(3) by (auto simp: roster_def list_all_iff)
  qed
  then show ?thesis using eff by blast
qed

theorem join_session_B_roster_distinct_witness:
  "list_all (\<lambda>s. distinct (roster s)) (sessions example_db)
   \<and> map roster (sessions (snd (join_session_B (JStr ''AB12CD'') (JStr ''tablet'') None None example_db)))
       = [[''phone'', ''tablet'']]
   \<and> map roster (sessions (snd (join_session_B (JStr ''AB12CD'') (JStr ''phone'') None None example_db)))
       = [[''phone'']]
   \<and> list_all (\<lambda>s. distinct (roster s))
       (sessions (snd (join_session_B (JStr ''AB12CD'') (JStr ''phone'') None None example_db)))"
  using join_session_B_roster_distinct [of example_db "JStr ''AB12CD''" "JStr ''phone''" None None]
    join_session_B_roster_distinct [of example_db "JStr ''AB12CD''" "JStr ''tablet''" None None]
  by (simp add: example_db_def join_session_B_def find_session_def update_device_ids_def
        record_call_def roster_def)

subsection \<open>Ending a session\<close>

text \<open>
  C8: for a \<open>sessionId\<close> that passes the check of line 131, EndSession calls the store
  twice, first to delete the items of the session and then to delete the session,
  whatever the first call answers. When the first call succeeds, every item of the
  session is gone and the other items are kept. When the second call succeeds the answer
  is 200 and the session is gone; when it fails the answer is 500
  \<^verbatim>\<open>Failed to end session\<close> and the sessions are as before (with the items already
  removed when the first call succeeded).
\<close>

theorem end_session_A_cleanup_order:
  assumes "truthy sessionId"
  shows "calls (snd (end_session_A sessionId f1 f2 d))
           = calls d @ [DeleteItems sessionId, DeleteSession sessionId]
    \<and> (f1 = None \<longrightarrow>
          clipboard_items (snd (end_session_A sessionId f1 f2 d))
            = filter (\<lambda>r. i_session_id r \<noteq> sessionId) (clipboard_items d)
        \<and> items_of sessionId (snd (end_session_A sessionId f1 f2 d)) = [])
    \<and> (f2 = None \<longrightarrow>
          fst (end_session_A sessionId f1 f2 d) = Json 200 success_body
        \<and> sessions (snd (end_session_A sessionId f1 f2 d))
            = filter (\<lambda>s. JStr (s_id s) \<noteq> sessionId) (sessions d))
    \<and> (f2 \<noteq> None \<longrightarrow>
          fst (end_session_A sessionId f1 f2 d) = Json 500 (err_body ''Failed to end session'')
        \<and> sessions (snd (end_session_A sessionId f1 f2 d)) = sessions d)"
  using assms
  by (cases f1; cases f2)
     (simp_all add: end_session_A_def delete_items_def delete_session_def record_call_def items_of_def)

theorem end_session_A_cleanup_order_witness:
  "truthy (JStr ''s1'')
   \<and> end_session_A (JStr ''s1'') None (Some (PgError ''57014'')) example_db
       = (Json 500 (err_body ''Failed to end session''),
          example_db\<lparr>clipboard_items :=
                        [\<lparr>i_session_id = JStr ''s2'', i_content = JStr ''other'', i_from_device = JNull,
                          i_created_at = 3\<rparr>],
                      calls := [DeleteItems (JStr ''s1''), DeleteSession (JStr ''s1'')]\<rparr>)
   \<and> end_session_A (JStr ''s1'') (Some (PgError ''57014'')) None example_db
       = (Json 200 success_body,
          example_db\<lparr>sessions := [],
                      calls := [DeleteItems (JStr ''s1''), DeleteSession (JStr ''s1'')]\<rparr>)"
  using end_session_A_cleanup_order [of "JStr ''s1''" None "Some (PgError ''57014'')" example_db]
    end_session_A_cleanup_order [of "JStr ''s1''" "Some (PgError ''57014'')" None example_db]
  by (simp add: example_db_def end_session_A_def delete_items_def delete_session_def record_call_def)

subsection \<open>Syncing a clipboard item\<close>

lemma nonempty_string_truthy: "nonempty_string v \<Longrightarrow> truthy v \<and> is_string v"
  by (cases v) simp_all

text \<open>
  C3, as the spec states it, fails in both variants: variant A accepts any truthy
  \<open>sessionId\<close> and \<open>clip\<close>, so the number 5 passes as a session id, and variant B
  accepts any two strings, so two empty strings pass.
\<close>

theorem sync_invalid_input_counterexample:
  "\<not> (status (fst (sync_A (JNum 5) (JStr ''hello'') None 0 example_db)) = Some 400
        \<longleftrightarrow> \<not> nonempty_string (JNum 5) \<or> \<not> nonempty_string (JStr ''hello''))
 \<and> \<not> (status (fst (sync_B (JStr []) (JStr []) JUndefined None 0 example_db)) = Some 400
        \<longleftrightarrow> \<not> nonempty_string (JStr []) \<or> \<not> nonempty_string (JStr []))"
  by (simp add: sync_A_def sync_B_def insert_item_def)

text \<open>
  C3, amended: variant A answers 400 exactly when \<open>sessionId\<close> or \<open>clip\<close> is falsy
  (missing, null, false, 0 or the empty string), variant B exactly when one of them is not
  a string. When both are non-empty strings, each variant makes one insert call: if it
  succeeds the answer is 200 and the new item is the last row of the table, stamped by the
  store; if it fails the answer is 500 \<^verbatim>\<open>Failed to sync\<close> and the table is as before.
\<close>

theorem sync_invalid_input:
  "(status (fst (sync_A sessionId clip fault now d)) = Some 400
      \<longleftrightarrow> \<not> truthy sessionId \<or> \<not> truthy clip)
 \<and> (status (fst (sync_B sessionId clip fromDevice fault now d)) = Some 400
      \<longleftrightarrow> \<not> is_string sessionId \<or> \<not> is_string clip)
 \<and> (nonempty_string sessionId \<and> nonempty_string clip \<longrightarrow>
      sync_A sessionId clip fault now d =
        (case fault of
           None \<Rightarrow> (Json 200 success_body,
                     record_call (InsertItem sessionId clip JNull)
                       (d\<lparr>clipboard_items := clipboard_items d @
                           [\<lparr>i_session_id = sessionId, i_content = clip, i_from_device = JNull,
                             i_created_at = now\<rparr>]\<rparr>))
         | Some e \<Rightarrow> (Json 500 (err_body ''Failed to sync''),
                       record_call (InsertItem sessionId clip JNull) d))
    \<and> sync_B sessionId clip fromDevice fault now d =
        (case fault of
           None \<Rightarrow> (Json 200 success_body,
                     record_call (InsertItem sessionId clip (if truthy fromDevice then fromDevice else JNull))
                       (d\<lparr>clipboard_items := clipboard_items d @
                           [\<lparr>i_session_id = sessionId, i_content = clip,
                             i_from_device = (if truthy fromDevice then fromDevice else JNull),
                             i_created_at = now\<rparr>]\<rparr>))
         | Some e \<Rightarrow> (Json 500 (err_body ''Failed to sync''),
                       record_call (InsertItem sessionId clip
                                      (if truthy fromDevice then fromDevice else JNull)) d)))"
  using nonempty_string_truthy [of sessionId] nonempty_string_truthy [of clip]
  by (cases fault) (auto simp: sync_A_def sync_B_def insert_item_def)

theorem sync_invalid_input_witness:
  "nonempty_string (JStr ''s1'') \<and> nonempty_string (JStr ''again'')
   \<and> fst (sync_A (JStr ''s1'') (JStr ''again'') None 7 example_db) = Json 200 success_body
   \<and> clipboard_items (snd (sync_A (JStr ''s1'') (JStr ''again'') None 7 example_db))
       = clipboard_items example_db @
           [\<lparr>i_session_id = JStr ''s1'', i_content = JStr ''again'', i_from_device = JNull,
             i_created_at = 7\<rparr>]
   \<and> sync_B (JStr ''s1'') (JStr ''again'') (JStr ''phone'') (Some (PgError ''57014'')) 7 example_db
       = (Json 500 (err_body ''Failed to sync''),
          example_db\<lparr>calls := [InsertItem (JStr ''s1'') (JStr ''again'') (JStr ''phone'')]\<rparr>)
   \<and> status (fst (sync_A (JStr []) (JStr ''again'') None 7 example_db)) = Some 400
   \<and> status (fst (sync_B JNull (JStr ''again'') JUndefined None 7 example_db)) = Some 400"
  using sync_invalid_input [of "JStr ''s1''" "JStr ''again''" None 7 example_db "JStr ''phone''"]
    sync_invalid_input [of "JStr ''s1''" "JStr ''again''" "Some (PgError ''57014'')" 7 example_db
      "JStr ''phone''"]
    sync_invalid_input [of "JStr []" "JStr ''again''" None 7 example_db JUndefined]
    sync_invalid_input [of JNull "JStr ''again''" None 7 example_db JUndefined]
  by (simp add: example_db_def record_call_def)

subsection \<open>The latest clipboard item\<close>

lemma order_desc_Nil: "order_desc rs = [] \<longleftrightarrow> rs = []"
  by (cases rs) (auto simp: order_desc_def sort_key_def)

lemma order_desc_Cons:
  assumes "order_desc rs = r # rest"
  shows "r \<in> set rs \<and> (\<forall>x \<in> set rs. i_created_at x \<le> i_created_at r)"
proof -
  let ?ys = "sort_key i_created_at rs"
  from assms have ys: "?ys = rev rest @ [r]"
    by (metis order_desc_def rev.simps(2) rev_rev_ident)
  have "sorted (map i_created_at ?ys)" by simp
  then have "\<forall>x \<in> set (rev rest). i_created_at x \<le> i_created_at r"
    unfolding ys by (simp add: sorted_append)
  moreover have "set rs = set ?ys" by simp
  ultimately show ?thesis unfolding ys by auto
qed

lemma queryLatest_empty:
  "items_of sid d = [] \<Longrightarrow> fst (fst (queryLatest fault sid d)) = None"
  by (cases fault) (simp_all add: queryLatest_def order_desc_Nil [THEN iffD2])

lemma queryLatest_newest:
  assumes "items_of sid d \<noteq> []"
  shows "\<exists>r \<in> set (items_of sid d). (\<forall>x \<in> set (items_of sid d). i_created_at x \<le> i_created_at r)
           \<and> fst (queryLatest None sid d) = (Some r, None)"
proof (cases "order_desc (items_of sid d)")
  case Nil
  then show ?thesis using assms by (simp add: order_desc_Nil)
next
  case (Cons r rest)
  then show ?thesis using order_desc_Cons [OF Cons] by (auto simp: queryLatest_def)
qed

lemma queryLatest_strict_newest:
  assumes "r \<in> set (items_of sid d)"
    and "\<forall>x \<in> set (items_of sid d). x \<noteq> r \<longrightarrow> i_created_at x < i_created_at r"
  shows "fst (queryLatest None sid d) = (Some r, None)"
proof -
  from assms(1) have "items_of sid d \<noteq> []" by auto
  from queryLatest_newest [OF this] obtain m where
    m: "m \<in> set (items_of sid d)" "\<forall>x \<in> set (items_of sid d). i_created_at x \<le> i_created_at m"
       "fst (queryLatest None sid d) = (Some m, None)" by blast
  have "m = r"
  proof (rule ccontr)
    assume "m \<noteq> r"
    then have "i_created_at m < i_created_at r" using assms(2) m(1) by blast
    moreover have "i_created_at r \<le> i_created_at m" using m(2) assms(1) by blast
    ultimately show False by simp
  qed
  then show ?thesis using m(3) by simp
qed

text \<open>
  C4: when the store holds no item of the session (whatever the sessions table holds),
  Latest answers 404 in both variants, also when the query fails. When it holds some and
  the query succeeds, Latest answers 200 with one item of the session whose
  \<open>created_at\<close> no other item of the session exceeds: variant A sends its content,
  variant B its content, origin and timestamp.
\<close>

theorem latest_returns_newest:
  "(items_of (JStr sid) d = [] \<longrightarrow>
      fst (latest_A sid fault d) = Json 404 (err_body ''No clipboard found'')
    \<and> fst (latest_B (JStr sid) fault d) = Json 404 (err_body ''No data found''))
 \<and> (items_of (JStr sid) d \<noteq> [] \<longrightarrow>
      (\<exists>r \<in> set (items_of (JStr sid) d).
          (\<forall>x \<in> set (items_of (JStr sid) d). i_created_at x \<le> i_created_at r)
        \<and> fst (latest_A sid None d) = Json 200 (JObj [(''clip'', i_content r)])
        \<and> fst (latest_B (JStr sid) None d)
            = Json 200 (JObj [(''content'', i_content r), (''fromDevice'', i_from_device r),
                              (''timestamp'', JNum (int (i_created_at r)))])))"
proof (intro conjI impI)
  assume e: "items_of (JStr sid) d = []"
  show "fst (latest_A sid fault d) = Json 404 (err_body ''No clipboard found'')"
    using queryLatest_empty [OF e, of fault]
    by (auto simp: latest_A_def split: prod.splits)
  show "fst (latest_B (JStr sid) fault d) = Json 404 (err_body ''No data found'')"
    using queryLatest_empty [OF e, of fault]
    by (auto simp: latest_B_def split: prod.splits)
next
  assume "items_of (JStr sid) d \<noteq> []"
  from queryLatest_newest [OF this] obtain r where
    r: "r \<in> set (items_of (JStr sid) d)"
       "\<forall>x \<in> set (items_of (JStr sid) d). i_created_at x \<le> i_created_at r"
       "fst (queryLatest None (JStr sid) d) = (Some r, None)" by blast
  have "fst (latest_A sid None d) = Json 200 (JObj [(''clip'', i_content r)])"
    using r(3) by (auto simp: latest_A_def split: prod.splits)
  moreover have "fst (latest_B (JStr sid) None d)
            = Json 200 (JObj [(''content'', i_content r), (''fromDevice'', i_from_device r),
                              (''timestamp'', JNum (int (i_created_at r)))])"
    using r(3) by (auto simp: latest_B_def split: prod.splits)
  ultimately show "\<exists>r \<in> set (items_of (JStr sid) d).
          (\<forall>x \<in> set (items_of (JStr sid) d). i_created_at x \<le> i_created_at r)
        \<and> fst (latest_A sid None d) = Json 200 (JObj [(''clip'', i_content r)])
        \<and> fst (latest_B (JStr sid) None d)
            = Json 200 (JObj [(''content'', i_content r), (''fromDevice'', i_from_device r),
                              (''timestamp'', JNum (int (i_created_at r)))])"
    using r(1,2) by blast
qed

theorem latest_returns_newest_witness:
  "items_of (JStr ''s1'') example_db \<noteq> []
   \<and> fst (latest_A ''s1'' None example_db) = Json 200 (JObj [(''clip'', JStr ''world'')])
   \<and> fst (latest_B (JStr ''s1'') None example_db)
       = Json 200 (JObj [(''content'', JStr ''world''), (''fromDevice'', JStr ''phone''),
                         (''timestamp'', JNum 2)])
   \<and> items_of (JStr ''s9'') example_db = []
   \<and> fst (latest_A ''s9'' None example_db) = Json 404 (err_body ''No clipboard found'')
   \<and> fst (latest_B (JStr ''s9'') (Some (PgError ''57014'')) example_db)
       = Json 404 (err_body ''No data found'')
   \<and> items_of (JStr ''s1'') (snd (end_session_A (JStr ''s1'') None None example_db)) = []
   \<and> fst (latest_A ''s1'' None (snd (end_session_A (JStr ''s1'') None None example_db)))
       = Json 404 (err_body ''No clipboard found'')"
  using latest_returns_newest [of "''s1''" example_db None]
    latest_returns_newest [of "''s9''" example_db None]
    latest_returns_newest [of "''s9''" example_db "Some (PgError ''57014'')"]
    latest_returns_newest [of "''s1''" "snd (end_session_A (JStr ''s1'') None None example_db)" None]
  by (simp add: example_db_def items_of_def end_session_A_def delete_items_def delete_session_def
        record_call_def)

text \<open>
  C5: let a session have only items stamped \<open>t1\<close> or earlier. After a Sync of \<open>c1\<close>
  stamped \<open>t1\<close> and a Sync of \<open>c2\<close> stamped later, \<open>t2\<close>, by one caller with no call
  failing, Latest answers \<open>c2\<close>, which is not \<open>c1\<close> unless the two contents are equal.
\<close>

theorem sync_sync_latest:
  assumes "sid \<noteq> []" and "c1 \<noteq> []" and "c2 \<noteq> []"
    and "list_all (\<lambda>x. i_created_at x \<le> t1) (items_of (JStr sid) d)"
    and "t1 < t2"
  shows "fst (latest_A sid None
               (snd (sync_A (JStr sid) (JStr c2) None t2
                  (snd (sync_A (JStr sid) (JStr c1) None t1 d)))))
           = Json 200 (JObj [(''clip'', JStr c2)])
       \<and> (c1 \<noteq> c2 \<longrightarrow>
            fst (latest_A sid None
               (snd (sync_A (JStr sid) (JStr c2) None t2
                  (snd (sync_A (JStr sid) (JStr c1) None t1 d)))))
           \<noteq> Json 200 (JObj [(''clip'', JStr c1)]))
       \<and> fst (latest_B (JStr sid) None
               (snd (sync_B (JStr sid) (JStr c2) fd2 None t2
                  (snd (sync_B (JStr sid) (JStr c1) fd1 None t1 d)))))
           = Json 200 (JObj [(''content'', JStr c2),
                             (''fromDevice'', if truthy fd2 then fd2 else JNull),
                             (''timestamp'', JNum (int t2))])"
proof -
  let ?b = "\<lparr>i_session_id = JStr sid, i_content = JStr c2, i_from_device = JNull, i_created_at = t2\<rparr>"
  let ?d2 = "snd (sync_A (JStr sid) (JStr c2) None t2 (snd (sync_A (JStr sid) (JStr c1) None t1 d)))"
  have items: "items_of (JStr sid) ?d2 = items_of (JStr sid) d @
      [\<lparr>i_session_id = JStr sid, i_content = JStr c1, i_from_device = JNull, i_created_at = t1\<rparr>, ?b]"
    using assms(1-3) by (simp add: sync_A_def insert_item_def items_of_def record_call_def)
  have "fst (queryLatest None (JStr sid) ?d2) = (Some ?b, None)"
  proof (rule queryLatest_strict_newest)
    show "?b \<in> set (items_of (JStr sid) ?d2)" unfolding items by simp
    show "\<forall>x \<in> set (items_of (JStr sid) ?d2). x \<noteq> ?b \<longrightarrow> i_created_at x < i_created_at ?b"
      unfolding items using assms(4,5) by (auto simp: list_all_iff)
  qed
  then have A: "fst (latest_A sid None ?d2) = Json 200 (JObj [(''clip'', JStr c2)])"
    by (auto simp: latest_A_def split: prod.splits)
  let ?f1 = "if truthy fd1 then fd1 else JNull"
  let ?f2 = "if truthy fd2 then fd2 else JNull"
  let ?b' = "\<lparr>i_session_id = JStr sid, i_content = JStr c2, i_from_device = ?f2, i_created_at = t2\<rparr>"
  let ?e2 = "snd (sync_B (JStr sid) (JStr c2) fd2 None t2 (snd (sync_B (JStr sid) (JStr c1) fd1 None t1 d)))"
  have items': "items_of (JStr sid) ?e2 = items_of (JStr sid) d @
      [\<lparr>i_session_id = JStr sid, i_content = JStr c1, i_from_device = ?f1, i_created_at = t1\<rparr>, ?b']"
    by (simp add: sync_B_def insert_item_def items_of_def record_call_def)
  have "fst (queryLatest None (JStr sid) ?e2) = (Some ?b', None)"
  proof (rule queryLatest_strict_newest)
    show "?b' \<in> set (items_of (JStr sid) ?e2)" unfolding items' by simp
    show "\<forall>x \<in> set (items_of (JStr sid) ?e2). x \<noteq> ?b' \<longrightarrow> i_created_at x < i_created_at ?b'"
      unfolding items' using assms(4,5) by (auto simp: list_all_iff)
  qed
  then have B: "fst (latest_B (JStr sid) None ?e2)
           = Json 200 (JObj [(''content'', JStr c2), (''fromDevice'', ?f2), (''timestamp'', JNum (int t2))])"
    by (auto simp: latest_B_def split: prod.splits)
  from A B show ?thesis by simp
qed

theorem sync_sync_latest_witness:
  "list_all (\<lambda>x. i_created_at x \<le> 5) (items_of (JStr ''s1'') example_db) \<and> (5::nat) < 6
   \<and> fst (latest_A ''s1'' None
        (snd (sync_A (JStr ''s1'') (JStr ''second'') None 6
           (snd (sync_A (JStr ''s1'') (JStr ''first'') None 5 example_db)))))
       = Json 200 (JObj [(''clip'', JStr ''second'')])
   \<and> fst (latest_B (JStr ''s1'') None
        (snd (sync_B (JStr ''s1'') (JStr ''second'') JUndefined None 6
           (snd (sync_B (JStr ''s1'') (JStr ''first'') (JStr ''phone'') None 5 example_db)))))
       = Json 200 (JObj [(''content'', JStr ''second''), (''fromDevice'', JNull), (''timestamp'', JNum 6)])"
  using sync_sync_latest [of "''s1''" "''first''" "''second''" 5 example_db 6 JUndefined "JStr ''phone''"]
  by (simp add: example_db_def items_of_def)

subsection \<open>Creating a session\<close>

lemma find_session_answer:
  "find_session fault c d =
     ((if fault = None then find (\<lambda>s. s_code s = c) (sessions d) else None, fault),
      record_call (FindSessionByCode c) d)"
  by (cases fault) (simp_all add: find_session_def)

lemma find_code_None: "find (\<lambda>s. s_code s = c) (sessions d) = None \<longleftrightarrow> c \<notin> live_codes d"
  by (auto simp: find_None_iff live_codes_def)

lemma gen_loop_step:
  assumes "\<not> u" and "tries < 10"
  shows "generateUniqueSessionCode_loop nanoid fault code u tries d =
         generateUniqueSessionCode_loop nanoid fault (toUpperCase (nanoid tries))
           (fault tries = None \<and> toUpperCase (nanoid tries) \<notin> live_codes d) (tries + 1)
           (record_call (FindSessionByCode (toUpperCase (nanoid tries))) d)"
  using assms
  by (subst generateUniqueSessionCode_loop.simps)
     (auto simp: find_session_answer find_code_None [symmetric] Let_def)

lemma gen_loop_stop:
  assumes "u \<or> \<not> tries < 10"
  shows "generateUniqueSessionCode_loop nanoid fault code u tries d = ((code, u, tries), d)"
  using assms by (subst generateUniqueSessionCode_loop.simps) auto

lemma gen_loop_result:
  assumes "generateUniqueSessionCode_loop nanoid fault code False tries d = ((code', u', tries'), d')"
    and "n = 10 - tries"
  shows "sessions d' = sessions d \<and> clipboard_items d' = clipboard_items d
       \<and> calls d' = calls d @ map (\<lambda>k. FindSessionByCode (toUpperCase (nanoid k))) [tries..<tries']
       \<and> (u' \<longrightarrow> (\<exists>k. tries \<le> k \<and> k < 10 \<and> tries' = k + 1 \<and> code' = toUpperCase (nanoid k)
                      \<and> code' \<notin> live_codes d))
       \<and> (\<not> u' \<longrightarrow> tries' = max tries 10)"
  using assms
proof (induction n arbitrary: tries code d)
  case 0
  then have "\<not> tries < 10" by simp
  then show ?case using 0 by (simp add: gen_loop_stop)
next
  case (Suc n)
  then have lt: "tries < 10" by simp
  let ?c = "toUpperCase (nanoid tries)"
  let ?d1 = "record_call (FindSessionByCode ?c) d"
  have d1: "sessions ?d1 = sessions d" "clipboard_items ?d1 = clipboard_items d"
    "calls ?d1 = calls d @ [FindSessionByCode ?c]" "live_codes ?d1 = live_codes d"
    by (simp_all add: record_call_def live_codes_def)
  show ?case
  proof (cases "fault tries = None \<and> ?c \<notin> live_codes d")
    case True
    have "generateUniqueSessionCode_loop nanoid fault code False tries d = ((?c, True, tries + 1), ?d1)"
      using True lt by (simp add: gen_loop_step gen_loop_stop)
    with Suc.prems(1) have "((code', u', tries'), d') = ((?c, True, tries + 1), ?d1)"
      by (rule trans [OF sym])
    then have "code' = ?c" "u'" "tries' = tries + 1" "d' = ?d1" by blast+
    then show ?thesis using d1 lt True by auto
  next
    case False
    from False have F: "(fault tries = None \<and> ?c \<notin> live_codes d) = False" by simp
    have "generateUniqueSessionCode_loop nanoid fault code False tries d
        = generateUniqueSessionCode_loop nanoid fault ?c False (tries + 1) ?d1"
      using gen_loop_step [of False tries nanoid fault code d] lt by (simp only: F simp_thms)
    with Suc.prems(1) have
      "generateUniqueSessionCode_loop nanoid fault ?c False (tries + 1) ?d1 = ((code', u', tries'), d')"
      by simp
    from Suc.IH [OF this] Suc.prems(2)
    have IH: "sessions d' = sessions ?d1 \<and> clipboard_items d' = clipboard_items ?d1
       \<and> calls d' = calls ?d1 @ map (\<lambda>k. FindSessionByCode (toUpperCase (nanoid k))) [tries + 1..<tries']
       \<and> (u' \<longrightarrow> (\<exists>k. tries + 1 \<le> k \<and> k < 10 \<and> tries' = k + 1 \<and> code' = toUpperCase (nanoid k)
                      \<and> code' \<notin> live_codes ?d1))
       \<and> (\<not> u' \<longrightarrow> tries' = max (tries + 1) 10)" by simp
    then have le: "tries + 1 \<le> tries'" using lt by (cases u') auto
    then have "[tries..<tries'] = tries # [tries + 1..<tries']"
      by (simp add: upt_conv_Cons)
    then show ?thesis using IH d1 lt by (cases u') (auto simp: max_def)
  qed
qed


lemma gen_unique_result:
  "generateUniqueSessionCode nanoid fault d = (r, d') \<Longrightarrow>
     sessions d' = sessions d \<and> clipboard_items d' = clipboard_items d
   \<and> (case r of
         Inl e \<Rightarrow> e = Error ''Failed to generate unique code''
                 \<and> calls d' = calls d @ map (\<lambda>k. FindSessionByCode (toUpperCase (nanoid k))) [0..<10]
       | Inr c \<Rightarrow> (\<exists>k<10. c = toUpperCase (nanoid k)) \<and> c \<notin> live_codes d)"
proof -
  assume a: "generateUniqueSessionCode nanoid fault d = (r, d')"
  obtain c u t d1 where l: "generateUniqueSessionCode_loop nanoid fault [] False 0 d = ((c, u, t), d1)"
    by (metis prod.exhaust)
  from gen_loop_result [OF l refl] a l show ?thesis
    by (cases u) (auto simp: generateUniqueSessionCode_def)
qed

lemma gen_unique_collide:
  assumes "\<forall>k<10. toUpperCase (nanoid k) \<in> live_codes d"
  shows "fst (generateUniqueSessionCode nanoid fault d) = Inl (Error ''Failed to generate unique code'')"
proof -
  obtain r d' where g: "generateUniqueSessionCode nanoid fault d = (r, d')" by (metis prod.exhaust)
  from gen_unique_result [OF g] assms show ?thesis unfolding g by (cases r) auto
qed

lemma create_A_result:
  assumes "create_session_A nanoid key fault ins_fault new_id d = (r, d')"
  shows "clipboard_items d' = clipboard_items d
    \<and> ((\<exists>k<10. toUpperCase (nanoid k) \<notin> live_codes d
           \<and> r = Json 200 (JObj [(''sessionId'', JStr new_id), (''code'', JStr (toUpperCase (nanoid k))),
                                 (''aesKey'', JStr key)])
           \<and> sessions d' = sessions d @ [\<lparr>s_id = new_id, s_code = toUpperCase (nanoid k),
                                           s_aes_key = Some key, s_device_ids = None\<rparr>])
       \<or> (r = Json 500 (err_body ''Failed to create session'') \<and> sessions d' = sessions d))"
proof -
  obtain g d1 where g: "generateUniqueSessionCode nanoid fault d = (g, d1)" by (metis prod.exhaust)
  note res = gen_unique_result [OF g]
  show ?thesis
  proof (cases g)
    case (Inl e)
    then show ?thesis using assms g res by (simp add: create_session_A_def)
  next
    case (Inr c)
    with res obtain k where k: "k < 10" "c = toUpperCase (nanoid k)" "c \<notin> live_codes d" by auto
    show ?thesis
    proof (cases ins_fault)
      case None
      then have "r = Json 200 (JObj [(''sessionId'', JStr new_id), (''code'', JStr c), (''aesKey'', JStr key)])"
        "sessions d' = sessions d @ [\<lparr>s_id = new_id, s_code = c, s_aes_key = Some key, s_device_ids = None\<rparr>]"
        "clipboard_items d' = clipboard_items d"
        using assms g Inr res
        by (auto simp: create_session_A_def insert_session_def record_call_def Let_def)
      then show ?thesis using k by blast
    next
      case (Some e)
      then show ?thesis using assms g Inr res
        by (auto simp: create_session_A_def insert_session_def record_call_def)
    qed
  qed
qed

lemma insert_session_unique_answer:
  "insert_session_unique fault new_id c d =
     (case fault of
        Some e \<Rightarrow> ((None, Some e), record_call (InsertSession c None) d)
      | None \<Rightarrow>
          if c \<in> live_codes d
          then ((None, Some (PgError ''23505'')), record_call (InsertSession c None) d)
          else ((Some \<lparr>s_id = new_id, s_code = c, s_aes_key = None, s_device_ids = None\<rparr>, None),
                record_call (InsertSession c None)
                  (d\<lparr>sessions := sessions d @
                       [\<lparr>s_id = new_id, s_code = c, s_aes_key = None, s_device_ids = None\<rparr>]\<rparr>)))"
  by (cases fault) (simp_all add: insert_session_unique_def insert_session_def live_codes_def Let_def)

lemma create_B_stop:
  "\<not> tries < 5 \<Longrightarrow>
   create_session_B_loop nanoid fault new_id tries d = (Json 500 (err_body ''Code generation failed''), d)"
  by (subst create_session_B_loop.simps) simp

lemma create_B_retry:
  assumes "tries < 5"
    and "(fault tries = None \<and> toUpperCase (nanoid tries) \<in> live_codes d)
         \<or> (\<exists>e. fault tries = Some e \<and> pg_code e = ''23505'')"
  shows "create_session_B_loop nanoid fault new_id tries d =
         create_session_B_loop nanoid fault new_id (tries + 1)
           (record_call (InsertSession (toUpperCase (nanoid tries)) None) d)"
  using assms
  by (subst create_session_B_loop.simps) (auto simp: insert_session_unique_answer Let_def)

lemma create_B_abort:
  assumes "tries < 5" and "fault tries = Some e" and "pg_code e \<noteq> ''23505''"
  shows "create_session_B_loop nanoid fault new_id tries d =
         (Json 500 (err_body ''Failed to create session''),
          record_call (InsertSession (toUpperCase (nanoid tries)) None) d)"
  using assms
  by (subst create_session_B_loop.simps) (simp add: insert_session_unique_answer Let_def)

lemma create_B_insert:
  assumes "tries < 5" and "fault tries = None" and "toUpperCase (nanoid tries) \<notin> live_codes d"
  shows "create_session_B_loop nanoid fault new_id tries d =
         (Json 200 (JObj [(''sessionId'', JStr new_id), (''code'', JStr (toUpperCase (nanoid tries)))]),
          record_call (InsertSession (toUpperCase (nanoid tries)) None)
            (d\<lparr>sessions := sessions d @
                 [\<lparr>s_id = new_id, s_code = toUpperCase (nanoid tries), s_aes_key = None,
                   s_device_ids = None\<rparr>]\<rparr>))"
  using assms
  by (subst create_session_B_loop.simps) (simp add: insert_session_unique_answer Let_def)

lemma create_B_loop_result:
  assumes "create_session_B_loop nanoid fault new_id tries d = (r, d')" and "n = 5 - tries"
  shows "clipboard_items d' = clipboard_items d
    \<and> ((\<exists>k<5. toUpperCase (nanoid k) \<notin> live_codes d
           \<and> r = Json 200 (JObj [(''sessionId'', JStr new_id), (''code'', JStr (toUpperCase (nanoid k)))])
           \<and> sessions d' = sessions d @ [\<lparr>s_id = new_id, s_code = toUpperCase (nanoid k),
                                           s_aes_key = None, s_device_ids = None\<rparr>])
       \<or> ((r = Json 500 (err_body ''Failed to create session'')
            \<or> r = Json 500 (err_body ''Code generation failed'')) \<and> sessions d' = sessions d))"
  using assms
proof (induction n arbitrary: tries d)
  case 0
  then have "\<not> tries < 5" by simp
  from create_B_stop [OF this] 0 show ?case by simp
next
  case (Suc n)
  then have lt: "tries < 5" by simp
  let ?c = "toUpperCase (nanoid tries)"
  let ?d1 = "record_call (InsertSession ?c None) d"
  have d1: "sessions ?d1 = sessions d" "clipboard_items ?d1 = clipboard_items d"
    "live_codes ?d1 = live_codes d"
    by (simp_all add: record_call_def live_codes_def)
  consider (retry) "(fault tries = None \<and> ?c \<in> live_codes d) \<or> (\<exists>e. fault tries = Some e \<and> pg_code e = ''23505'')"
    | (abort) e where "fault tries = Some e" "pg_code e \<noteq> ''23505''"
    | (ins) "fault tries = None" "?c \<notin> live_codes d"
    by (cases "fault tries") auto
  then show ?case
  proof cases
    case retry
    from create_B_retry [where tries = tries and fault = fault and nanoid = nanoid and d = d and new_id = new_id, OF lt retry] Suc.prems(1)
    have "create_session_B_loop nanoid fault new_id (tries + 1) ?d1 = (r, d')" by simp
    from Suc.IH [OF this] Suc.prems(2) show ?thesis using d1 by simp
  next
    case abort
    from create_B_abort [where tries = tries and fault = fault and nanoid = nanoid and d = d and new_id = new_id, OF lt abort] Suc.prems(1) show ?thesis
      by (auto simp: record_call_def)
  next
    case ins
    from create_B_insert [where tries = tries and fault = fault and nanoid = nanoid and d = d and new_id = new_id, OF lt ins] Suc.prems(1)
    have "r = Json 200 (JObj [(''sessionId'', JStr new_id), (''code'', JStr ?c)])"
      "sessions d' = sessions d @ [\<lparr>s_id = new_id, s_code = ?c, s_aes_key = None, s_device_ids = None\<rparr>]"
      "clipboard_items d' = clipboard_items d"
      by (auto simp: record_call_def)
    then show ?thesis using lt ins(2) by blast
  qed
qed

lemma create_B_loop_exhaust:
  assumes "\<forall>k<5. fault k = None \<and> toUpperCase (nanoid k) \<in> live_codes d" and "n = 5 - tries"
  shows "create_session_B_loop nanoid fault new_id tries d =
         (Json 500 (err_body ''Code generation failed''),
          d\<lparr>calls := calls d @ map (\<lambda>k. InsertSession (toUpperCase (nanoid k)) None) [tries..<5]\<rparr>)"
  using assms
proof (induction n arbitrary: tries d)
  case 0
  then have "\<not> tries < 5" by simp
  from create_B_stop [OF this] show ?case using \<open>\<not> tries < 5\<close> by simp
next
  case (Suc n)
  then have lt: "tries < 5" by simp
  let ?c = "toUpperCase (nanoid tries)"
  let ?d1 = "record_call (InsertSession ?c None) d"
  have codes: "live_codes ?d1 = live_codes d" by (simp add: record_call_def live_codes_def)
  have "create_session_B_loop nanoid fault new_id tries d
      = create_session_B_loop nanoid fault new_id (tries + 1) ?d1"
    using create_B_retry [where tries = tries and fault = fault and nanoid = nanoid and d = d and new_id = new_id, OF lt] Suc.prems(1) lt by blast
  also have "\<dots> = (Json 500 (err_body ''Code generation failed''),
          ?d1\<lparr>calls := calls ?d1 @ map (\<lambda>k. InsertSession (toUpperCase (nanoid k)) None) [tries + 1..<5]\<rparr>)"
    using Suc.IH [of ?d1 "tries + 1"] Suc.prems codes by simp
  also have "?d1\<lparr>calls := calls ?d1 @ map (\<lambda>k. InsertSession (toUpperCase (nanoid k)) None) [tries + 1..<5]\<rparr>
      = d\<lparr>calls := calls d @ map (\<lambda>k. InsertSession (toUpperCase (nanoid k)) None) [tries..<5]\<rparr>"
    using lt by (simp add: record_call_def upt_conv_Cons)
  finally show ?case .
qed


lemma upper_char_code_char: "nanoid_char c \<Longrightarrow> code_char (upper_char c)"
  by (auto simp: nanoid_char_def code_char_def upper_alnum_def digit_char_def upper_letter_def
        lower_letter_def upper_char_def Let_def)

lemma toUpperCase_code:
  "nanoid6 s \<Longrightarrow> length (toUpperCase s) = 6 \<and> list_all code_char (toUpperCase s)"
  by (auto simp: nanoid6_def toUpperCase_def list_all_iff upper_char_code_char)

lemma upper_ab12cd: "toUpperCase ''ab12cd'' = ''AB12CD''"
  by (simp add: toUpperCase_def upper_char_def char_of_def bit_0)

lemma upper_x7: "toUpperCase ''x7_k-q'' = ''X7_K-Q''"
  by (simp add: toUpperCase_def upper_char_def char_of_def bit_0)

lemma upper_ab: "toUpperCase ''ab_-12'' = ''AB_-12''"
  by (simp add: toUpperCase_def upper_char_def char_of_def bit_0)

lemmas create_session_eval = example_db_def live_codes_def upper_ab12cd upper_x7 upper_ab
  create_session_A_def generateUniqueSessionCode_def gen_loop_step gen_loop_stop
  create_session_B_def create_B_retry create_B_abort create_B_insert create_B_stop
  insert_session_def record_call_def
  nanoid6_def nanoid_char_def code_char_def upper_alnum_def digit_char_def upper_letter_def
  lower_letter_def err_body_def Let_def

text \<open>
  C1, as the spec states it, fails on the character class: \<^verbatim>\<open>nanoid\<close> may return
  \<^verbatim>\<open>ab_-12\<close>, and both variants then issue the code \<^verbatim>\<open>AB_-12\<close>, which is not
  alphanumeric.
\<close>

theorem create_session_code_counterexample:
  "nanoid6 ''ab_-12''
   \<and> fst (create_session_A (\<lambda>k. ''ab_-12'') ''k2'' (\<lambda>k. None) None ''s2'' example_db)
       = Json 200 (JObj [(''sessionId'', JStr ''s2''), (''code'', JStr ''AB_-12''), (''aesKey'', JStr ''k2'')])
   \<and> fst (create_session_B (\<lambda>k. ''ab_-12'') (\<lambda>k. None) ''s2'' example_db)
       = Json 200 (JObj [(''sessionId'', JStr ''s2''), (''code'', JStr ''AB_-12'')])
   \<and> \<not> list_all upper_alnum ''AB_-12''"
  by (simp add: create_session_eval)



text \<open>
  C1, amended: a CreateSession that answers 200 returns, in both variants, a code of
  exactly 6 characters, each an upper-case letter, a digit, \<^verbatim>\<open>_\<close> or \<^verbatim>\<open>-\<close>, that
  no session of the store carried before the call; the sessions after the call are those
  before it and the new one, so the code equals no other live session's code.
\<close>

theorem create_session_code:
  assumes "\<forall>k. nanoid6 (nanoid k)"
  shows "(fst (create_session_A nanoid key fault ins_fault new_id d) = Json 200 b \<longrightarrow>
           (\<exists>c. b = JObj [(''sessionId'', JStr new_id), (''code'', JStr c), (''aesKey'', JStr key)]
               \<and> length c = 6 \<and> list_all code_char c \<and> c \<notin> live_codes d
               \<and> sessions (snd (create_session_A nanoid key fault ins_fault new_id d))
                   = sessions d @ [\<lparr>s_id = new_id, s_code = c, s_aes_key = Some key,
                                    s_device_ids = None\<rparr>]))
       \<and> (fst (create_session_B nanoid fault new_id d) = Json 200 b \<longrightarrow>
           (\<exists>c. b = JObj [(''sessionId'', JStr new_id), (''code'', JStr c)]
               \<and> length c = 6 \<and> list_all code_char c \<and> c \<notin> live_codes d
               \<and> sessions (snd (create_session_B nanoid fault new_id d))
                   = sessions d @ [\<lparr>s_id = new_id, s_code = c, s_aes_key = None,
                                    s_device_ids = None\<rparr>]))"
proof (intro conjI impI)
  assume ok: "fst (create_session_A nanoid key fault ins_fault new_id d) = Json 200 b"
  obtain r d' where c: "create_session_A nanoid key fault ins_fault new_id d = (r, d')"
    by (metis prod.exhaust)
  from create_A_result [OF c] ok c obtain k where
    "b = JObj [(''sessionId'', JStr new_id), (''code'', JStr (toUpperCase (nanoid k))), (''aesKey'', JStr key)]"
    "toUpperCase (nanoid k) \<notin> live_codes d"
    "sessions d' = sessions d @ [\<lparr>s_id = new_id, s_code = toUpperCase (nanoid k),
                                   s_aes_key = Some key, s_device_ids = None\<rparr>]"
    by (auto simp: err_body_def)
  then show "\<exists>c. b = JObj [(''sessionId'', JStr new_id), (''code'', JStr c), (''aesKey'', JStr key)]
               \<and> length c = 6 \<and> list_all code_char c \<and> c \<notin> live_codes d
               \<and> sessions (snd (create_session_A nanoid key fault ins_fault new_id d))
                   = sessions d @ [\<lparr>s_id = new_id, s_code = c, s_aes_key = Some key,
                                    s_device_ids = None\<rparr>]"
    using toUpperCase_code [of "nanoid k"] assms c by auto
next
  assume ok: "fst (create_session_B nanoid fault new_id d) = Json 200 b"
  obtain r d' where c: "create_session_B_loop nanoid fault new_id 0 d = (r, d')"
    by (metis prod.exhaust)
  from create_B_loop_result [OF c refl] ok c obtain k where
    "b = JObj [(''sessionId'', JStr new_id), (''code'', JStr (toUpperCase (nanoid k)))]"
    "toUpperCase (nanoid k) \<notin> live_codes d"
    "sessions d' = sessions d @ [\<lparr>s_id = new_id, s_code = toUpperCase (nanoid k),
                                   s_aes_key = None, s_device_ids = None\<rparr>]"
    by (auto simp: err_body_def create_session_B_def)
  then show "\<exists>c. b = JObj [(''sessionId'', JStr new_id), (''code'', JStr c)]
               \<and> length c = 6 \<and> list_all code_char c \<and> c \<notin> live_codes d
               \<and> sessions (snd (create_session_B nanoid fault new_id d))
                   = sessions d @ [\<lparr>s_id = new_id, s_code = c, s_aes_key = None,
                                    s_device_ids = None\<rparr>]"
    using toUpperCase_code [of "nanoid k"] assms c by (auto simp: create_session_B_def)
qed

theorem create_session_code_witness:
  "nanoid6 ''ab12cd'' \<and> nanoid6 ''x7_k-q''
   \<and> create_session_A (\<lambda>k. if k < 2 then ''ab12cd'' else ''x7_k-q'') ''k2'' (\<lambda>k. None) None ''s2'' example_db
       = (Json 200 (JObj [(''sessionId'', JStr ''s2''), (''code'', JStr ''X7_K-Q''), (''aesKey'', JStr ''k2'')]),
          example_db\<lparr>sessions := sessions example_db @
                        [\<lparr>s_id = ''s2'', s_code = ''X7_K-Q'', s_aes_key = Some ''k2'', s_device_ids = None\<rparr>],
                      calls := [FindSessionByCode ''AB12CD'', FindSessionByCode ''AB12CD'',
                                FindSessionByCode ''X7_K-Q'', InsertSession ''X7_K-Q'' (Some ''k2'')]\<rparr>)
   \<and> create_session_B (\<lambda>k. if k < 2 then ''ab12cd'' else ''x7_k-q'') (\<lambda>k. None) ''s2'' example_db
       = (Json 200 (JObj [(''sessionId'', JStr ''s2''), (''code'', JStr ''X7_K-Q'')]),
          example_db\<lparr>sessions := sessions example_db @
                        [\<lparr>s_id = ''s2'', s_code = ''X7_K-Q'', s_aes_key = None, s_device_ids = None\<rparr>],
                      calls := [InsertSession ''AB12CD'' None, InsertSession ''AB12CD'' None,
                                InsertSession ''X7_K-Q'' None]\<rparr>)
   \<and> length ''X7_K-Q'' = 6 \<and> list_all code_char ''X7_K-Q'' \<and> ''X7_K-Q'' \<notin> live_codes example_db"
proof -
  let ?nanoid = "\<lambda>k::nat. if k < 2 then ''ab12cd'' else ''x7_k-q''"
  have n: "nanoid6 ''ab12cd''" "nanoid6 ''x7_k-q''"
    by (simp_all add: nanoid6_def nanoid_char_def digit_char_def upper_letter_def lower_letter_def)
  then have h: "\<forall>k. nanoid6 (?nanoid k)" by simp
  have a: "create_session_A ?nanoid ''k2'' (\<lambda>k. None) None ''s2'' example_db
       = (Json 200 (JObj [(''sessionId'', JStr ''s2''), (''code'', JStr ''X7_K-Q''), (''aesKey'', JStr ''k2'')]),
          example_db\<lparr>sessions := sessions example_db @
                        [\<lparr>s_id = ''s2'', s_code = ''X7_K-Q'', s_aes_key = Some ''k2'', s_device_ids = None\<rparr>],
                      calls := [FindSessionByCode ''AB12CD'', FindSessionByCode ''AB12CD'',
                                FindSessionByCode ''X7_K-Q'', InsertSession ''X7_K-Q'' (Some ''k2'')]\<rparr>)"
    by (simp add: create_session_eval)
  have b: "create_session_B ?nanoid (\<lambda>k. None) ''s2'' example_db
       = (Json 200 (JObj [(''sessionId'', JStr ''s2''), (''code'', JStr ''X7_K-Q'')]),
          example_db\<lparr>sessions := sessions example_db @
                        [\<lparr>s_id = ''s2'', s_code = ''X7_K-Q'', s_aes_key = None, s_device_ids = None\<rparr>],
                      calls := [InsertSession ''AB12CD'' None, InsertSession ''AB12CD'' None,
                                InsertSession ''X7_K-Q'' None]\<rparr>)"
    by (simp add: create_session_eval)
  from create_session_code [OF h, of "''k2''" "\<lambda>k. None" None "''s2''" example_db
      "JObj [(''sessionId'', JStr ''s2''), (''code'', JStr ''X7_K-Q''), (''aesKey'', JStr ''k2'')]"]
  have "length ''X7_K-Q'' = 6 \<and> list_all code_char ''X7_K-Q'' \<and> ''X7_K-Q'' \<notin> live_codes example_db"
    unfolding a by simp
  then show ?thesis using n a b by simp
qed

text \<open>
  C2: when each of the ten candidates is the code of a session of the store, variant A
  fails inside \<^verbatim>\<open>generateUniqueSessionCode\<close> with its exhaustion error, answers 500,
  has made exactly ten lookups and no insert, and leaves the sessions as they were. When
  each of the five candidates is taken and no insert fails for another reason, variant B
  answers 500 \<^verbatim>\<open>Code generation failed\<close> after exactly five inserts, each rejected,
  and leaves the sessions as they were. In both variants a CreateSession that answers 200
  has added exactly one session, and one that does not has added none.
\<close>

theorem create_session_exhaustion:
  "((\<forall>k<10. toUpperCase (nanoid k) \<in> live_codes d) \<longrightarrow>
      fst (generateUniqueSessionCode nanoid fault d) = Inl (Error ''Failed to generate unique code'')
    \<and> fst (create_session_A nanoid key fault ins_fault new_id d)
        = Json 500 (err_body ''Failed to create session'')
    \<and> sessions (snd (create_session_A nanoid key fault ins_fault new_id d)) = sessions d
    \<and> calls (snd (create_session_A nanoid key fault ins_fault new_id d))
        = calls d @ map (\<lambda>k. FindSessionByCode (toUpperCase (nanoid k))) [0..<10])
 \<and> ((\<forall>k<5. fault k = None \<and> toUpperCase (nanoid k) \<in> live_codes d) \<longrightarrow>
      fst (create_session_B nanoid fault new_id d) = Json 500 (err_body ''Code generation failed'')
    \<and> sessions (snd (create_session_B nanoid fault new_id d)) = sessions d
    \<and> calls (snd (create_session_B nanoid fault new_id d))
        = calls d @ map (\<lambda>k. InsertSession (toUpperCase (nanoid k)) None) [0..<5])
 \<and> (status (fst (create_session_A nanoid key fault ins_fault new_id d)) = Some 200 \<longrightarrow>
      (\<exists>row. sessions (snd (create_session_A nanoid key fault ins_fault new_id d)) = sessions d @ [row]))
 \<and> (status (fst (create_session_A nanoid key fault ins_fault new_id d)) \<noteq> Some 200 \<longrightarrow>
      sessions (snd (create_session_A nanoid key fault ins_fault new_id d)) = sessions d)
 \<and> (status (fst (create_session_B nanoid fault new_id d)) = Some 200 \<longrightarrow>
      (\<exists>row. sessions (snd (create_session_B nanoid fault new_id d)) = sessions d @ [row]))
 \<and> (status (fst (create_session_B nanoid fault new_id d)) \<noteq> Some 200 \<longrightarrow>
      sessions (snd (create_session_B nanoid fault new_id d)) = sessions d)"
proof -
  obtain ra da where a: "create_session_A nanoid key fault ins_fault new_id d = (ra, da)"
    by (metis prod.exhaust)
  obtain rb db where b: "create_session_B_loop nanoid fault new_id 0 d = (rb, db)"
    by (metis prod.exhaust)
  obtain g dg where g: "generateUniqueSessionCode nanoid fault d = (g, dg)" by (metis prod.exhaust)
  note ra = create_A_result [OF a]
  note rb = create_B_loop_result [OF b refl]
  have A_ok: "status ra = Some 200 \<longrightarrow> (\<exists>row. sessions da = sessions d @ [row])"
    using ra by (auto simp: err_body_def)
  have A_fail: "status ra \<noteq> Some 200 \<longrightarrow> sessions da = sessions d"
    using ra by auto
  have B_ok: "status rb = Some 200 \<longrightarrow> (\<exists>row. sessions db = sessions d @ [row])"
    using rb by (auto simp: err_body_def)
  have B_fail: "status rb \<noteq> Some 200 \<longrightarrow> sessions db = sessions d"
    using rb by auto
  have A_ex: "fst (generateUniqueSessionCode nanoid fault d) = Inl (Error ''Failed to generate unique code'')
    \<and> ra = Json 500 (err_body ''Failed to create session'') \<and> sessions da = sessions d
    \<and> calls da = calls d @ map (\<lambda>k. FindSessionByCode (toUpperCase (nanoid k))) [0..<10]"
    if all: "\<forall>k<10. toUpperCase (nanoid k) \<in> live_codes d"
  proof -
    from gen_unique_collide [OF all, of fault] g have gl: "g = Inl (Error ''Failed to generate unique code'')"
      by simp
    with gen_unique_result [OF g] have "sessions dg = sessions d"
      "calls dg = calls d @ map (\<lambda>k. FindSessionByCode (toUpperCase (nanoid k))) [0..<10]"
      by simp_all
    moreover have "ra = Json 500 (err_body ''Failed to create session'')" "da = dg"
      using a g gl by (simp_all add: create_session_A_def)
    ultimately show ?thesis using g gl by simp
  qed
  have B_ex: "rb = Json 500 (err_body ''Code generation failed'') \<and> sessions db = sessions d
    \<and> calls db = calls d @ map (\<lambda>k. InsertSession (toUpperCase (nanoid k)) None) [0..<5]"
    if all: "\<forall>k<5. fault k = None \<and> toUpperCase (nanoid k) \<in> live_codes d"
    using create_B_loop_exhaust [OF all refl, of new_id 0] b by auto
  show ?thesis
    unfolding create_session_B_def a b fst_conv snd_conv
    using A_ok A_fail B_ok B_fail A_ex B_ex by blast
qed



theorem create_session_exhaustion_witness:
  "toUpperCase ''ab12cd'' \<in> live_codes example_db
   \<and> fst (generateUniqueSessionCode (\<lambda>k. ''ab12cd'') (\<lambda>k. None) example_db)
       = Inl (Error ''Failed to generate unique code'')
   \<and> create_session_A (\<lambda>k. ''ab12cd'') ''k2'' (\<lambda>k. None) None ''s2'' example_db
       = (Json 500 (err_body ''Failed to create session''),
          example_db\<lparr>calls := replicate 10 (FindSessionByCode ''AB12CD'')\<rparr>)
   \<and> create_session_B (\<lambda>k. ''ab12cd'') (\<lambda>k. None) ''s2'' example_db
       = (Json 500 (err_body ''Code generation failed''),
          example_db\<lparr>calls := replicate 5 (InsertSession ''AB12CD'' None)\<rparr>)
   \<and> status (fst (create_session_A (\<lambda>k. ''x7_k-q'') ''k2'' (\<lambda>k. None) None ''s2'' example_db)) = Some 200
   \<and> length (sessions (snd (create_session_A (\<lambda>k. ''x7_k-q'') ''k2'' (\<lambda>k. None) None ''s2'' example_db))) = 2
   \<and> status (fst (create_session_B (\<lambda>k. ''x7_k-q'') (\<lambda>k. None) ''s2'' example_db)) = Some 200
   \<and> length (sessions (snd (create_session_B (\<lambda>k. ''x7_k-q'') (\<lambda>k. None) ''s2'' example_db))) = 2
   \<and> create_session_B (\<lambda>k. ''x7_k-q'') (\<lambda>k. Some (PgError ''57014'')) ''s2'' example_db
       = (Json 500 (err_body ''Failed to create session''),
          example_db\<lparr>calls := [InsertSession ''X7_K-Q'' None]\<rparr>)"
proof -
  have c: "toUpperCase ''ab12cd'' \<in> live_codes example_db"
    by (simp add: upper_ab12cd live_codes_def example_db_def)
  then have hA: "\<forall>k<10. toUpperCase ((\<lambda>k. ''ab12cd'') k) \<in> live_codes example_db"
    and hB: "\<forall>k<5. (\<lambda>k. None :: pgerror option) k = None
                \<and> toUpperCase ((\<lambda>k. ''ab12cd'') k) \<in> live_codes example_db"
    by simp_all
  note ex = create_session_exhaustion [of "\<lambda>k. ''ab12cd''" example_db "\<lambda>k. None" "''k2''" None "''s2''"]
  have exA: "fst (generateUniqueSessionCode (\<lambda>k. ''ab12cd'') (\<lambda>k. None) example_db)
               = Inl (Error ''Failed to generate unique code'')
    \<and> calls (snd (create_session_A (\<lambda>k. ''ab12cd'') ''k2'' (\<lambda>k. None) None ''s2'' example_db))
        = calls example_db @ map (\<lambda>k. FindSessionByCode (toUpperCase ''ab12cd'')) [0..<10]"
    using ex hA by blast
  have exB: "calls (snd (create_session_B (\<lambda>k. ''ab12cd'') (\<lambda>k. None) ''s2'' example_db))
        = calls example_db @ map (\<lambda>k. InsertSession (toUpperCase ''ab12cd'') None) [0..<5]"
    using ex hB by blast
  have a: "create_session_A (\<lambda>k. ''ab12cd'') ''k2'' (\<lambda>k. None) None ''s2'' example_db
       = (Json 500 (err_body ''Failed to create session''),
          example_db\<lparr>calls := replicate 10 (FindSessionByCode ''AB12CD'')\<rparr>)"
    by (simp add: create_session_eval eval_nat_numeral)
  have b: "create_session_B (\<lambda>k. ''ab12cd'') (\<lambda>k. None) ''s2'' example_db
       = (Json 500 (err_body ''Code generation failed''),
          example_db\<lparr>calls := replicate 5 (InsertSession ''AB12CD'' None)\<rparr>)"
    by (simp add: create_session_eval eval_nat_numeral)
  have s: "create_session_A (\<lambda>k. ''x7_k-q'') ''k2'' (\<lambda>k. None) None ''s2'' example_db
       = (Json 200 (JObj [(''sessionId'', JStr ''s2''), (''code'', JStr ''X7_K-Q''), (''aesKey'', JStr ''k2'')]),
          example_db\<lparr>sessions := sessions example_db @
                        [\<lparr>s_id = ''s2'', s_code = ''X7_K-Q'', s_aes_key = Some ''k2'', s_device_ids = None\<rparr>],
                      calls := [FindSessionByCode ''X7_K-Q'', InsertSession ''X7_K-Q'' (Some ''k2'')]\<rparr>)"
    by (simp add: create_session_eval)
  have t: "create_session_B (\<lambda>k. ''x7_k-q'') (\<lambda>k. None) ''s2'' example_db
       = (Json 200 (JObj [(''sessionId'', JStr ''s2''), (''code'', JStr ''X7_K-Q'')]),
          example_db\<lparr>sessions := sessions example_db @
                        [\<lparr>s_id = ''s2'', s_code = ''X7_K-Q'', s_aes_key = None, s_device_ids = None\<rparr>],
                      calls := [InsertSession ''X7_K-Q'' None]\<rparr>)"
    by (simp add: create_session_eval)
  have f: "create_session_B (\<lambda>k. ''x7_k-q'') (\<lambda>k. Some (PgError ''57014'')) ''s2'' example_db
       = (Json 500 (err_body ''Failed to create session''),
          example_db\<lparr>calls := [InsertSession ''X7_K-Q'' None]\<rparr>)"
    by (simp add: create_session_eval)
  note ok = create_session_exhaustion [of "\<lambda>k. ''x7_k-q''" example_db "\<lambda>k. None" "''k2''" None "''s2''"]
  have okA: "\<exists>row. sessions (snd (create_session_A (\<lambda>k. ''x7_k-q'') ''k2'' (\<lambda>k. None) None ''s2'' example_db))
               = sessions example_db @ [row]"
    using ok unfolding s by simp
  show ?thesis using exA exB okA c unfolding a b s t f by (simp add: example_db_def)
qed

end
